theory Spec2Isabelle
  imports Main
begin

section \<open>Data model of the battleship client (frontend/app/page.tsx)\<close>

text \<open>
  The component \<open>GamePage\<close> keeps two boards, a status, a winner and a reference to
  one WebSocket. The types below are the TypeScript types of the file.
\<close>

datatype CellState = Empty | Hit | Miss | Ship

datatype Difficulty = Easy | Medium | Hard

datatype GameStatus = Disconnected | Connecting | BattleActive | VICTORY | DEFEAT | Error

datatype js_error = SyntaxError | TypeError | InvalidStateError

subsection \<open>JavaScript arrays\<close>

text \<open>
  A JavaScript array is a list whose slots may be holes: reading a hole, or an index that
  is not an element index, gives \<open>undefined\<close> (here \<open>None\<close>). Writing at an index at or
  beyond the length extends the array, the slots in between becoming holes. Writing at a
  negative index sets a property that is not an element, so the elements stay as they are.
\<close>

type_synonym 'a js_array = "'a option list"

definition js_get :: "'a js_array \<Rightarrow> int \<Rightarrow> 'a option" where
  "js_get xs i = (if 0 \<le> i \<and> nat i < length xs then xs ! nat i else None)"

definition js_set :: "'a js_array \<Rightarrow> int \<Rightarrow> 'a \<Rightarrow> 'a js_array" where
  "js_set xs i v =
     (if i < 0 then xs
      else if nat i < length xs then xs[nat i := Some v]
      else xs @ replicate (nat i - length xs) None @ [Some v])"

type_synonym board = "CellState js_array list"

text \<open>The outer array of a board is only ever read by index: \<open>prev[row]\<close>.\<close>

definition row_at :: "board \<Rightarrow> int \<Rightarrow> CellState js_array option" where
  "row_at b i = (if 0 \<le> i \<and> nat i < length b then Some (b ! nat i) else None)"

definition cell_at :: "board \<Rightarrow> int \<Rightarrow> int \<Rightarrow> CellState option" where
  "cell_at b r c = (case row_at b r of None \<Rightarrow> None | Some cells \<Rightarrow> js_get cells c)"

definition GRID_SIZE :: nat where
  "GRID_SIZE = 10"

definition createEmptyBoard :: board where
  "createEmptyBoard = replicate GRID_SIZE (replicate GRID_SIZE (Some Empty))"

definition wf_board :: "board \<Rightarrow> bool" where
  "wf_board b = (length b = GRID_SIZE \<and> list_all (\<lambda>cells. length cells = GRID_SIZE \<and> list_all (\<lambda>s. s \<noteq> None) cells) b)"

definition in_grid :: "int \<Rightarrow> int \<Rightarrow> bool" where
  "in_grid r c = (0 \<le> r \<and> r < int GRID_SIZE \<and> 0 \<le> c \<and> c < int GRID_SIZE)"

subsection \<open>updateGrid\<close>

text \<open>
  \<^verbatim>\<open>
  setBoard((prev) => {
    const newBoard = prev.map((r) => [...r]);
    newBoard[row][col] = result;
    return newBoard;
  });
  \<close>
  The updater on board values, where the copy of a row is the row. \<open>newBoard[row]\<close> is
  \<open>undefined\<close> when \<open>row\<close> is not a row index, and the assignment to its property then
  throws a TypeError. No check of \<open>col\<close> is made: the row copy is written as any
  JavaScript array is. Coordinates are integers, as the wire format has them.
\<close>

definition updateGrid :: "board \<Rightarrow> int \<Rightarrow> int \<Rightarrow> CellState \<Rightarrow> js_error + board" where
  "updateGrid prev row col result =
     (let newBoard = map (\<lambda>r. r) prev
      in case row_at newBoard row of
           None \<Rightarrow> Inl TypeError
         | Some cells \<Rightarrow> Inr (newBoard[nat row := js_set cells col result]))"

subsection \<open>updateGrid on the heap\<close>

text \<open>
  Boards are arrays of arrays, and the updater copies before it writes. To say that the
  previous snapshot is left as it was, the same statements are modelled on a store of
  array objects: an address is an index into the store, the outer array of a board holds
  the addresses of its rows, and \<open>prev.map((r) => [...r])\<close> allocates one new array for
  every row and one for the outer array. The type \<open>CellState[][]\<close> excludes a board
  whose outer array or rows are objects of the other kind; on such a store the model
  gives no board.
\<close>

datatype js_obj = Cells "CellState js_array" | Rows "nat list"

type_synonym heap = "js_obj list"

definition lookup :: "heap \<Rightarrow> nat \<Rightarrow> js_obj option" where
  "lookup h a = (if a < length h then Some (h ! a) else None)"

definition alloc :: "heap \<Rightarrow> js_obj \<Rightarrow> heap \<times> nat" where
  "alloc h ob = (h @ [ob], length h)"

fun copy_rows :: "heap \<Rightarrow> nat list \<Rightarrow> js_error + (heap \<times> nat list)" where
  "copy_rows h [] = Inr (h, [])"
| "copy_rows h (r # rs) =
     (case lookup h r of
        Some (Cells cells) \<Rightarrow>
          (let (h1, a) = alloc h (Cells cells)
           in case copy_rows h1 rs of
                Inl e \<Rightarrow> Inl e
              | Inr (h2, as) \<Rightarrow> Inr (h2, a # as))
      | _ \<Rightarrow> Inl TypeError)"

definition addr_at :: "nat list \<Rightarrow> int \<Rightarrow> nat option" where
  "addr_at rs i = (if 0 \<le> i \<and> nat i < length rs then Some (rs ! nat i) else None)"

definition updateGrid_heap :: "heap \<Rightarrow> nat \<Rightarrow> int \<Rightarrow> int \<Rightarrow> CellState \<Rightarrow> js_error + (heap \<times> nat)" where
  "updateGrid_heap h prev row col result =
     (case lookup h prev of
        Some (Rows rs) \<Rightarrow>
          (case copy_rows h rs of
             Inl e \<Rightarrow> Inl e
           | Inr (h1, rs') \<Rightarrow>
               (let (h2, newBoard) = alloc h1 (Rows rs')
                in case addr_at rs' row of
                     None \<Rightarrow> Inl TypeError
                   | Some a \<Rightarrow>
                       (case lookup h2 a of
                          Some (Cells cells) \<Rightarrow> Inr (h2[a := Cells (js_set cells col result)], newBoard)
                        | _ \<Rightarrow> Inl TypeError)))
      | _ \<Rightarrow> Inl TypeError)"

text \<open>\<open>heap_board h a b\<close>: the object at address \<open>a\<close> of the store \<open>h\<close> is the board \<open>b\<close>.\<close>

definition heap_board :: "heap \<Rightarrow> nat \<Rightarrow> board \<Rightarrow> bool" where
  "heap_board h a b =
     (case lookup h a of
        Some (Rows rs) \<Rightarrow> list_all2 (\<lambda>r cells. lookup h r = Some (Cells cells)) rs b
      | _ \<Rightarrow> False)"

text \<open>The addresses a board occupies: its outer array and its rows.\<close>

definition board_addrs :: "heap \<Rightarrow> nat \<Rightarrow> nat list" where
  "board_addrs h a = (case lookup h a of Some (Rows rs) \<Rightarrow> a # rs | _ \<Rightarrow> [a])"

section \<open>Wire messages\<close>

text \<open>
  \<^verbatim>\<open>
  interface TurnUpdate { user?: {row, col, result}; bot?: {row, col, result};
                         winner?: "User" | "Bot" | null }
  interface WSMessage { type?: "init"; status?: "success" | "error";
                        board?: CellState[][]; turn_update?: TurnUpdate; message?: string }
  \<close>
  A field that is absent or \<open>null\<close> is \<open>None\<close>. The discriminators \<open>type\<close>, \<open>status\<close> and
  \<open>winner\<close> arrive as strings and are kept as strings, since the handler compares them
  with \<open>===\<close> and tests them for truthiness.
\<close>

record ShotResult =
  shot_row :: int
  shot_col :: int
  shot_result :: CellState

record TurnUpdate =
  tu_user :: "ShotResult option"
  tu_bot :: "ShotResult option"
  tu_winner :: "string option"

record WSMessage =
  msg_type :: "string option"
  msg_status :: "string option"
  msg_board :: "board option"
  msg_turn_update :: "TurnUpdate option"
  msg_message :: "string option"

text \<open>
  What \<open>JSON.parse(event.data)\<close> does with the text of a frame: it throws a SyntaxError
  when the text is not JSON, and otherwise returns \<open>null\<close>, a value that is not an object
  with fields (a number, a string, a boolean, an array), or an object.
\<close>

datatype json = JNull | JNonObject | JObject WSMessage

datatype frame = Malformed | Text json

definition JSON_parse :: "frame \<Rightarrow> js_error + json" where
  "JSON_parse f = (case f of Malformed \<Rightarrow> Inl SyntaxError | Text v \<Rightarrow> Inr v)"

section \<open>Session state and effects\<close>

datatype ReadyState = CONNECTING | OPEN | CLOSING | CLOSED

text \<open>
  The state of the component: the values held by \<open>useState\<close>, the reference
  \<open>socketRef.current\<close> (a handle, or \<open>None\<close> for \<open>null\<close>), and the WebSocket objects
  created so far, a handle being an index into \<open>sockets\<close>.
\<close>

record session =
  gameId :: string
  status :: GameStatus
  winner :: "string option"
  difficulty :: Difficulty
  myBoard :: board
  enemyBoard :: board
  socketRef :: "nat option"
  sockets :: "ReadyState list"

datatype effect =
    CloseCall nat
  | Sent nat string
  | Connect nat string
  | Fetch Difficulty
  | ConsoleWarn "string option"
  | ConsoleError

text \<open>
  A handler either completes, or an exception leaves it uncaught. Both carry what was
  done to the outside and the state the component is left in.
\<close>

datatype outcome = Completed "effect list" session | Uncaught js_error "effect list" session

definition initial :: session where
  "initial = \<lparr> gameId = [], status = Disconnected, winner = None, difficulty = Easy,
               myBoard = createEmptyBoard, enemyBoard = createEmptyBoard,
               socketRef = None, sockets = [] \<rparr>"

text \<open>Truthiness of a value of type \<open>string | null | undefined\<close>.\<close>

definition truthy :: "string option \<Rightarrow> bool" where
  "truthy w = (case w of None \<Rightarrow> False | Some s \<Rightarrow> s \<noteq> [])"

subsection \<open>The WebSocket interface\<close>

definition ready_state :: "session \<Rightarrow> nat \<Rightarrow> ReadyState" where
  "ready_state st ws = (if ws < length (sockets st) then sockets st ! ws else CLOSED)"

text \<open>\<open>ws.close()\<close> starts the closing handshake of a socket that is not yet closing.\<close>

definition ws_close :: "nat \<Rightarrow> ReadyState list \<Rightarrow> ReadyState list" where
  "ws_close ws ss =
     (if ws < length ss \<and> (ss ! ws = CONNECTING \<or> ss ! ws = OPEN) then ss[ws := CLOSING] else ss)"

text \<open>
  \<open>ws.send(data)\<close> throws an InvalidStateError while the socket is connecting, transmits
  on an open socket, and discards the data on a closing or closed one.
\<close>

definition ws_send :: "session \<Rightarrow> nat \<Rightarrow> string \<Rightarrow> outcome" where
  "ws_send st ws payload =
     (case ready_state st ws of
        CONNECTING \<Rightarrow> Uncaught InvalidStateError [] st
      | OPEN \<Rightarrow> Completed [Sent ws payload] st
      | CLOSING \<Rightarrow> Completed [] st
      | CLOSED \<Rightarrow> Completed [] st)"

subsection \<open>Decimal numbers in template strings\<close>

fun show_nat :: "nat \<Rightarrow> string" where
  "show_nat n = (if n < 10 then [''0123456789'' ! n] else show_nat (n div 10) @ [''0123456789'' ! (n mod 10)])"

definition show_int :: "int \<Rightarrow> string" where
  "show_int i = (if i < 0 then ''-'' @ show_nat (nat (- i)) else show_nat (nat i))"

declare show_nat.simps [simp del]

section \<open>The handlers\<close>

subsection \<open>connectToWebsocket: ws.onopen, ws.onmessage\<close>

text \<open>\<^verbatim>\<open>ws.onopen = () => setStatus("Battle Active");\<close>\<close>

definition onopen :: "session \<Rightarrow> outcome" where
  "onopen st = Completed [] (st\<lparr>status := BattleActive\<rparr>)"

text \<open>\<^verbatim>\<open>if (user) updateGrid(setEnemyBoard, user.row, user.col, user.result);\<close>\<close>

definition apply_shot :: "board \<Rightarrow> ShotResult option \<Rightarrow> js_error + board" where
  "apply_shot b s =
     (case s of
        None \<Rightarrow> Inr b
      | Some u \<Rightarrow> updateGrid b (shot_row u) (shot_col u) (shot_result u))"

text \<open>
  \<^verbatim>\<open>
  const { user, bot, winner: gameWinner } = data.turn_update;
  if (user) updateGrid(setEnemyBoard, user.row, user.col, user.result);
  if (bot) updateGrid(setMyBoard, bot.row, bot.col, bot.result);
  if (gameWinner) {
    setWinner(gameWinner);
    setStatus(gameWinner === "User" ? "VICTORY" : "DEFEAT");
    ws.close();
    socketRef.current = null;
  }
  \<close>
  The handler itself only queues the two updaters; React runs them when it renders. When
  one of them throws, the render is abandoned and none of the state updates of the
  handler is committed, while the call of \<open>ws.close()\<close> and the assignment to the
  reference have already happened.
\<close>

definition turn_update :: "nat \<Rightarrow> session \<Rightarrow> TurnUpdate \<Rightarrow> outcome" where
  "turn_update ws st tu =
     (let gameWinner = tu_winner tu;
          effs = (if truthy gameWinner then [CloseCall ws] else []);
          ref = (if truthy gameWinner then None else socketRef st);
          socks = (if truthy gameWinner then ws_close ws (sockets st) else sockets st)
      in case (apply_shot (enemyBoard st) (tu_user tu), apply_shot (myBoard st) (tu_bot tu)) of
           (Inr eb, Inr mb) \<Rightarrow>
             Completed effs
               (if truthy gameWinner
                then st\<lparr>enemyBoard := eb, myBoard := mb, winner := gameWinner,
                        status := (if gameWinner = Some ''User'' then VICTORY else DEFEAT),
                        socketRef := ref, sockets := socks\<rparr>
                else st\<lparr>enemyBoard := eb, myBoard := mb\<rparr>)
         | (Inl e, _) \<Rightarrow> Uncaught e effs (st\<lparr>socketRef := ref, sockets := socks\<rparr>)
         | (Inr _, Inl e) \<Rightarrow> Uncaught e effs (st\<lparr>socketRef := ref, sockets := socks\<rparr>))"

text \<open>
  \<^verbatim>\<open>
  ws.onmessage = (event) => {
    const data: WSMessage = JSON.parse(event.data);
    if (data.type === "init" && data.board) {
      setMyBoard(data.board);
    } else if (data.status === "success" && data.turn_update) {
      ...
    } else if (data.status === "error") {
      console.warn("Maneuver Rejected:", data.message);
    }
  };
  \<close>
  There is no \<open>try\<close> around \<open>JSON.parse\<close>. Reading \<open>data.type\<close> of \<open>null\<close> throws a
  TypeError; of a number, string, boolean or array it gives \<open>undefined\<close>. The argument
  \<open>ws\<close> is the socket the handler is attached to.
\<close>

definition onmessage :: "nat \<Rightarrow> session \<Rightarrow> frame \<Rightarrow> outcome" where
  "onmessage ws st f =
     (case JSON_parse f of
        Inl e \<Rightarrow> Uncaught e [] st
      | Inr JNull \<Rightarrow> Uncaught TypeError [] st
      | Inr JNonObject \<Rightarrow> Completed [] st
      | Inr (JObject data) \<Rightarrow>
          (if msg_type data = Some ''init'' \<and> msg_board data \<noteq> None
           then Completed [] (st\<lparr>myBoard := the (msg_board data)\<rparr>)
           else if msg_status data = Some ''success'' \<and> msg_turn_update data \<noteq> None
           then turn_update ws st (the (msg_turn_update data))
           else if msg_status data = Some ''error''
           then Completed [ConsoleWarn (msg_message data)] st
           else Completed [] st))"

text \<open>
  \<^verbatim>\<open>
  if (socketRef.current) return;
  const ws = new WebSocket(`${WS_URL}/ws/${id}`);
  ws.onopen = ...; ws.onmessage = ...;
  socketRef.current = ws;
  \<close>
  The new socket is connecting. The address is recorded relative to \<open>WS_URL\<close>, which
  comes from the process configuration.
\<close>

definition connectToWebsocket :: "session \<Rightarrow> string \<Rightarrow> outcome" where
  "connectToWebsocket st ident =
     (case socketRef st of
        Some _ \<Rightarrow> Completed [] st
      | None \<Rightarrow>
          (let ws = length (sockets st)
           in Completed [Connect ws (''/ws/'' @ ident)]
                (st\<lparr>socketRef := Some ws, sockets := sockets st @ [CONNECTING]\<rparr>)))"

subsection \<open>startBotGame\<close>

text \<open>
  \<^verbatim>\<open>
  socketRef.current?.close();
  socketRef.current = null;
  setWinner(null); setGameId("");
  setMyBoard(createEmptyBoard()); setEnemyBoard(createEmptyBoard());
  setStatus("Connecting...");
  try {
    const res = await fetch(`${HTTP_URL}/create_game`, { method: "POST", ... });
    if (!res.ok) throw new Error("Server Offline");
    const data = await res.json();
    setGameId(data.game_id);
    connectToWebsocket(data.game_id);
  } catch (err) { console.error(err); setStatus("Error"); }
  \<close>
  The function is asynchronous: the part up to the request runs when it is called, the
  rest when the request has settled, on the state of that moment.
\<close>

datatype fetch_result = TransportError | NotOk | BadBody | Created string

definition startBotGame_begin :: "session \<Rightarrow> outcome" where
  "startBotGame_begin st =
     Completed
       ((case socketRef st of None \<Rightarrow> [] | Some ws \<Rightarrow> [CloseCall ws]) @ [Fetch (difficulty st)])
       (st\<lparr>socketRef := None,
           sockets := (case socketRef st of None \<Rightarrow> sockets st | Some ws \<Rightarrow> ws_close ws (sockets st)),
           winner := None, gameId := [],
           myBoard := createEmptyBoard, enemyBoard := createEmptyBoard,
           status := Connecting\<rparr>)"

definition startBotGame_resume :: "session \<Rightarrow> fetch_result \<Rightarrow> outcome" where
  "startBotGame_resume st res =
     (case res of
        Created ident \<Rightarrow> connectToWebsocket (st\<lparr>gameId := ident\<rparr>) ident
      | _ \<Rightarrow> Completed [ConsoleError] (st\<lparr>status := Error\<rparr>))"

subsection \<open>handleShot\<close>

text \<open>
  \<^verbatim>\<open>
  if (!socketRef.current || winner || enemyBoard[row][col] !== "Empty") return;
  socketRef.current.send(`${row},${col}`);
  \<close>
  The disjunction is evaluated from the left: the board is read only when there is a
  socket and no winner, and \<open>enemyBoard[row]\<close> of a row that does not exist is
  \<open>undefined\<close>, whose property cannot be read.
\<close>

definition handleShot :: "session \<Rightarrow> int \<Rightarrow> int \<Rightarrow> outcome" where
  "handleShot st row col =
     (case socketRef st of
        None \<Rightarrow> Completed [] st
      | Some ws \<Rightarrow>
          if truthy (winner st) then Completed [] st
          else (case row_at (enemyBoard st) row of
                  None \<Rightarrow> Uncaught TypeError [] st
                | Some cells \<Rightarrow>
                    if js_get cells col \<noteq> Some Empty then Completed [] st
                    else ws_send st ws (show_int row @ '','' @ show_int col)))"

subsection \<open>Events\<close>

text \<open>
  The events of a socket. The browser fires \<open>open\<close> once, on a connecting socket, and
  \<open>message\<close> only on an open one. \<open>connectToWebsocket\<close> assigns \<open>ws.onopen\<close> and
  \<open>ws.onmessage\<close> and nothing else: for \<open>close\<close> and \<open>error\<close> no handler runs.
\<close>

datatype ws_event = EvOpen | EvMessage frame | EvClose | EvError

datatype event = Shot int int | WsEvent nat ws_event | StartMission | FetchDone fetch_result

definition dispatch :: "nat \<Rightarrow> session \<Rightarrow> ws_event \<Rightarrow> outcome" where
  "dispatch ws st ev =
     (case ev of
        EvOpen \<Rightarrow>
          if ready_state st ws = CONNECTING
          then onopen (st\<lparr>sockets := (sockets st)[ws := OPEN]\<rparr>)
          else Completed [] st
      | EvMessage f \<Rightarrow>
          if ready_state st ws = OPEN then onmessage ws st f else Completed [] st
      | EvClose \<Rightarrow> Completed [] (st\<lparr>sockets := (sockets st)[ws := CLOSED]\<rparr>)
      | EvError \<Rightarrow> Completed [] st)"

definition step :: "session \<Rightarrow> event \<Rightarrow> outcome" where
  "step st ev =
     (case ev of
        Shot row col \<Rightarrow> handleShot st row col
      | WsEvent ws e \<Rightarrow> dispatch ws st e
      | StartMission \<Rightarrow> startBotGame_begin st
      | FetchDone res \<Rightarrow> startBotGame_resume st res)"

definition effects_of :: "outcome \<Rightarrow> effect list" where
  "effects_of out = (case out of Completed effs _ \<Rightarrow> effs | Uncaught _ effs _ \<Rightarrow> effs)"

definition state_of :: "outcome \<Rightarrow> session" where
  "state_of out = (case out of Completed _ st \<Rightarrow> st | Uncaught _ _ st \<Rightarrow> st)"

definition fault_of :: "outcome \<Rightarrow> js_error option" where
  "fault_of out = (case out of Completed _ _ \<Rightarrow> None | Uncaught e _ _ \<Rightarrow> Some e)"

text \<open>
  A run of events. An exception that a handler leaves uncaught is reported by the
  browser and the next event is handled on the state that was left; the run keeps the
  outcome of every event.
\<close>

fun run :: "session \<Rightarrow> event list \<Rightarrow> outcome list" where
  "run st [] = []"
| "run st (ev # evs) = (let out = step st ev in out # run (state_of out) evs)"

subsection \<open>One session\<close>

text \<open>
  The session of the scenario: a mission is started from the initial state, the creation
  request answers with the identifier \<open>abc123\<close>, and the socket opens.
\<close>

definition playing :: session where
  "playing = state_of (last (run initial
     [StartMission, FetchDone (Created ''abc123''), WsEvent 0 EvOpen]))"

text \<open>
  The frame of the scenario: a turn outcome with the shot of the user at (3,4), a hit,
  the shot of the bot at (7,7), a miss, and no winner.
\<close>

definition scenario :: WSMessage where
  "scenario = \<lparr>msg_type = None, msg_status = Some ''success'', msg_board = None,
     msg_turn_update = Some \<lparr>tu_user = Some \<lparr>shot_row = 3, shot_col = 4, shot_result = Hit\<rparr>,
       tu_bot = Some \<lparr>shot_row = 7, shot_col = 7, shot_result = Miss\<rparr>, tu_winner = None\<rparr>,
     msg_message = None\<rparr>"

text \<open>The frame that ends the game: the shot of the user at (3,4) hits, and the user wins.\<close>

definition victory :: WSMessage where
  "victory = \<lparr>msg_type = None, msg_status = Some ''success'', msg_board = None,
     msg_turn_update = Some \<lparr>tu_user = Some \<lparr>shot_row = 3, shot_col = 4, shot_result = Hit\<rparr>,
       tu_bot = None, tu_winner = Some ''User''\<rparr>,
     msg_message = None\<rparr>"

text \<open>
  The events that belong to the session of the socket \<open>ws\<close>: shots, and the events of
  that socket. Starting a mission begins another session.
\<close>

definition same_session :: "nat \<Rightarrow> event \<Rightarrow> bool" where
  "same_session ws ev =
     (case ev of
        Shot _ _ \<Rightarrow> True
      | WsEvent ws' _ \<Rightarrow> ws' = ws
      | StartMission \<Rightarrow> False
      | FetchDone _ \<Rightarrow> False)"

text \<open>The coordinate of a shot result, when there is one, lies in the grid.\<close>

definition shot_in_grid :: "ShotResult option \<Rightarrow> bool" where
  "shot_in_grid s = (case s of None \<Rightarrow> True | Some u \<Rightarrow> in_grid (shot_row u) (shot_col u))"

section \<open>Lemmas\<close>

subsection \<open>Boards\<close>

lemma row_at_in: "0 \<le> r \<Longrightarrow> nat r < length b \<Longrightarrow> row_at b r = Some (b ! nat r)"
  by (simp add: row_at_def)

lemma wf_board_rows: "wf_board b \<Longrightarrow> n < GRID_SIZE \<Longrightarrow> length (b ! n) = GRID_SIZE"
  by (simp add: wf_board_def list_all_length)

lemma wf_board_length: "wf_board b \<Longrightarrow> length b = GRID_SIZE"
  by (simp add: wf_board_def)

lemma wf_board_cells: "wf_board b \<Longrightarrow> n < GRID_SIZE \<Longrightarrow> k < GRID_SIZE \<Longrightarrow> b ! n ! k \<noteq> None"
  by (simp add: wf_board_def list_all_length)

lemma wf_boardI:
  assumes "length b = GRID_SIZE"
    and "\<And>n. n < GRID_SIZE \<Longrightarrow> length (b ! n) = GRID_SIZE"
    and "\<And>n k. n < GRID_SIZE \<Longrightarrow> k < GRID_SIZE \<Longrightarrow> b ! n ! k \<noteq> None"
  shows "wf_board b"
  using assms by (simp add: wf_board_def list_all_length)

lemma wf_createEmptyBoard: "wf_board createEmptyBoard"
  by (rule wf_boardI) (simp_all add: createEmptyBoard_def)

lemma in_grid_nat: "in_grid r c \<Longrightarrow> 0 \<le> r \<and> 0 \<le> c \<and> nat r < GRID_SIZE \<and> nat c < GRID_SIZE"
  by (auto simp add: in_grid_def)

lemma updateGrid_in_grid:
  assumes "wf_board b" "in_grid r c"
  shows "updateGrid b r c v = Inr (b[nat r := (b ! nat r)[nat c := Some v]])"
proof -
  from assms(2) have rc: "0 \<le> r" "0 \<le> c" "nat r < GRID_SIZE" "nat c < GRID_SIZE"
    by (simp_all add: in_grid_nat)
  from assms(1) rc have row: "row_at b r = Some (b ! nat r)"
    by (simp add: row_at_in wf_board_length)
  from assms(1) rc have "nat c < length (b ! nat r)"
    by (simp add: wf_board_rows)
  with rc have "js_set (b ! nat r) c v = (b ! nat r)[nat c := Some v]"
    by (simp add: js_set_def)
  with row show ?thesis
    by (simp add: updateGrid_def)
qed

lemma wf_board_update:
  assumes "wf_board b" "in_grid r c"
  shows "wf_board (b[nat r := (b ! nat r)[nat c := Some v]])"
proof (rule wf_boardI)
  show "length (b[nat r := (b ! nat r)[nat c := Some v]]) = GRID_SIZE"
    using assms(1) by (simp add: wf_board_length)
next
  fix n assume "n < GRID_SIZE"
  then show "length (b[nat r := (b ! nat r)[nat c := Some v]] ! n) = GRID_SIZE"
    using assms(1) by (cases "n = nat r") (simp_all add: wf_board_length wf_board_rows)
next
  fix n k assume nk: "n < GRID_SIZE" "k < GRID_SIZE"
  show "b[nat r := (b ! nat r)[nat c := Some v]] ! n ! k \<noteq> None"
  proof (cases "n = nat r")
    case True
    with nk assms(1) show ?thesis
      by (cases "k = nat c") (simp_all add: wf_board_length wf_board_rows wf_board_cells)
  next
    case False
    with nk assms(1) show ?thesis
      by (simp add: wf_board_length wf_board_cells)
  qed
qed

lemma cell_at_outside: 
  assumes "wf_board b" "\<not> in_grid r c"
  shows "cell_at b r c = None"
proof (cases "0 \<le> r \<and> nat r < length b")
  case False
  then show ?thesis by (auto simp add: cell_at_def row_at_def)
next
  case True
  with assms(1) have len: "length (b ! nat r) = GRID_SIZE"
    by (simp add: wf_board_rows wf_board_length)
  from True assms have "\<not> (0 \<le> c \<and> nat c < GRID_SIZE)"
    by (auto simp add: in_grid_def wf_board_length)
  with True len show ?thesis
    by (auto simp add: cell_at_def row_at_def js_get_def)
qed

lemma cell_at_update:
  assumes "wf_board b" "in_grid r c"
  shows "cell_at (b[nat r := (b ! nat r)[nat c := Some v]]) r' c' =
         (if r' = r \<and> c' = c then Some v else cell_at b r' c')"
proof -
  from assms(2) have rc: "0 \<le> r" "0 \<le> c" "nat r < GRID_SIZE" "nat c < GRID_SIZE"
    by (simp_all add: in_grid_nat)
  have len: "length b = GRID_SIZE" "length (b ! nat r) = GRID_SIZE"
    using assms(1) rc by (simp_all add: wf_board_length wf_board_rows)
  show ?thesis
  proof (cases "0 \<le> r' \<and> nat r' < length b")
    case False
    then show ?thesis using rc len by (auto simp add: cell_at_def row_at_def)
  next
    case inr: True
    show ?thesis
    proof (cases "r' = r")
      case False
      with inr rc have "nat r' \<noteq> nat r" by auto
      with inr False show ?thesis by (simp add: cell_at_def row_at_def)
    next
      case True
      show ?thesis
      proof (cases "0 \<le> c' \<and> nat c' < GRID_SIZE")
        case False
        with True inr rc len show ?thesis 
          by (auto simp add: cell_at_def row_at_def js_get_def)
      next
        case inc: True
        with True inr rc len show ?thesis
          by (cases "c' = c") (auto simp add: cell_at_def row_at_def js_get_def nth_list_update)
      qed
    qed
  qed
qed

lemma cell_at_in_grid:
  assumes "wf_board b" "in_grid r c"
  shows "row_at b r = Some (b ! nat r)" and "js_get (b ! nat r) c = cell_at b r c"
proof -
  from assms(2) have rc: "0 \<le> r" "0 \<le> c" "nat r < GRID_SIZE" "nat c < GRID_SIZE"
    by (simp_all add: in_grid_nat)
  with assms(1) show "row_at b r = Some (b ! nat r)"
    by (simp add: row_at_in wf_board_length)
  then show "js_get (b ! nat r) c = cell_at b r c"
    by (simp add: cell_at_def)
qed

subsection \<open>The store\<close>

lemma lookup_append: "lookup h a = Some ob \<Longrightarrow> lookup (h @ xs) a = Some ob"
  by (auto simp add: lookup_def nth_append split: if_splits)

lemma lookup_valid: "lookup h a = Some ob \<Longrightarrow> a < length h"
  by (simp add: lookup_def split: if_splits)

lemma copy_rows_eq:
  assumes "list_all2 (\<lambda>r cells. lookup h r = Some (Cells cells)) rs b"
  shows "copy_rows h rs = Inr (h @ map Cells b, [length h ..< length h + length b])"
  using assms
proof (induction rs arbitrary: h b)
  case Nil
  then show ?case by simp
next
  case (Cons r rs)
  from Cons.prems obtain cells bs where b: "b = cells # bs"
    and r: "lookup h r = Some (Cells cells)"
    and rs: "list_all2 (\<lambda>r cells. lookup h r = Some (Cells cells)) rs bs"
    by (auto simp add: list_all2_Cons1)
  from rs have "list_all2 (\<lambda>r cs. lookup (h @ [Cells cells]) r = Some (Cells cs)) rs bs"
    by (rule list_all2_mono) (simp add: lookup_append)
  then have "copy_rows (h @ [Cells cells]) rs =
      Inr ((h @ [Cells cells]) @ map Cells bs,
           [length (h @ [Cells cells]) ..< length (h @ [Cells cells]) + length bs])"
    by (rule Cons.IH)
  moreover have "[length h ..< length h + length b] =
      length h # [length (h @ [Cells cells]) ..< length (h @ [Cells cells]) + length bs]"
    using b upt_conv_Cons [of "length h" "length h + length b"] by simp
  ultimately show ?case
    using r b by (simp add: alloc_def del: upt_Suc)
qed

lemma heap_boardE:
  assumes "heap_board h a b"
  obtains rs where "lookup h a = Some (Rows rs)"
    and "list_all2 (\<lambda>r cells. lookup h r = Some (Cells cells)) rs b"
  using assms by (auto simp add: heap_board_def split: option.splits js_obj.splits)

lemma heap_board_fresh: "heap_board (map Cells b @ [Rows [0 ..< length b]]) (length b) b"
  by (simp add: heap_board_def lookup_def list_all2_conv_all_nth nth_append)

subsection \<open>The session that is playing\<close>

lemmas handler_defs = step_def dispatch_def onopen_def onmessage_def JSON_parse_def
  startBotGame_begin_def startBotGame_resume_def connectToWebsocket_def
  ready_state_def ws_close_def state_of_def fault_of_def effects_of_def initial_def

lemma playing_eq:
  "playing = \<lparr>gameId = ''abc123'', status = BattleActive, winner = None, difficulty = Easy,
     myBoard = createEmptyBoard, enemyBoard = createEmptyBoard, socketRef = Some 0,
     sockets = [OPEN]\<rparr>"
  by (simp add: playing_def handler_defs)

lemma ready_playing: "ready_state playing 0 = OPEN"
  by (simp add: playing_eq ready_state_def)

subsection \<open>Messages\<close>

lemma step_message:
  "ready_state st ws = OPEN \<Longrightarrow> step st (WsEvent ws (EvMessage f)) = onmessage ws st f"
  by (simp add: step_def dispatch_def)

lemma onmessage_success:
  assumes "msg_status data = Some ''success''" and "msg_turn_update data = Some tu"
    and "\<not> (msg_type data = Some ''init'' \<and> msg_board data \<noteq> None)"
  shows "onmessage ws st (Text (JObject data)) = turn_update ws st tu"
  using assms by (auto simp add: onmessage_def JSON_parse_def)

lemma apply_shot_in_grid:
  assumes "wf_board b" "shot_in_grid s"
  shows "apply_shot b s =
    Inr (case s of None \<Rightarrow> b
         | Some u \<Rightarrow> b[nat (shot_row u) := (b ! nat (shot_row u))[nat (shot_col u) := Some (shot_result u)]])"
  using assms by (cases s) (simp_all add: apply_shot_def shot_in_grid_def updateGrid_in_grid)

lemma written_cells:
  assumes "wf_board b" "shot_in_grid s"
  shows "case s of None \<Rightarrow> (case s of None \<Rightarrow> b | Some u \<Rightarrow> b[nat (shot_row u) := (b ! nat (shot_row u))[nat (shot_col u) := Some (shot_result u)]]) = b
     | Some u \<Rightarrow> \<forall>r c. cell_at (case s of None \<Rightarrow> b | Some u \<Rightarrow> b[nat (shot_row u) := (b ! nat (shot_row u))[nat (shot_col u) := Some (shot_result u)]]) r c =
          (if r = shot_row u \<and> c = shot_col u then Some (shot_result u) else cell_at b r c)"
  using assms by (cases s) (simp_all add: shot_in_grid_def cell_at_update)

lemma ready_state_sockets: "sockets st' = sockets st \<Longrightarrow> ready_state st' ws = ready_state st ws"
  by (simp add: ready_state_def)

lemma ws_close_open:
  assumes "ready_state st ws = OPEN"
  shows "ready_state (st\<lparr>sockets := ws_close ws (sockets st)\<rparr>) ws = CLOSING"
  using assms by (auto simp add: ready_state_def ws_close_def split: if_splits)

subsection \<open>Shots\<close>

lemma handleShot_in_grid:
  assumes "wf_board (enemyBoard st)" "in_grid row col"
  shows "handleShot st row col =
    (case socketRef st of
       None \<Rightarrow> Completed [] st
     | Some ws \<Rightarrow>
        if truthy (winner st) \<or> cell_at (enemyBoard st) row col \<noteq> Some Empty
        then Completed [] st
        else ws_send st ws (show_int row @ '','' @ show_int col))"
  using cell_at_in_grid [OF assms]
  by (simp add: handleShot_def split: option.splits)

subsection \<open>After the winner\<close>

lemma after_win_step:
  assumes "socketRef st = None" 
    and "ready_state st ws \<noteq> OPEN" and "ready_state st ws \<noteq> CONNECTING"
    and "same_session ws ev"
  shows "\<exists>st'. step st ev = Completed [] st' \<and> socketRef st' = None
    \<and> ready_state st' ws \<noteq> OPEN \<and> ready_state st' ws \<noteq> CONNECTING
    \<and> winner st' = winner st \<and> status st' = status st
    \<and> myBoard st' = myBoard st \<and> enemyBoard st' = enemyBoard st"
proof (cases ev)
  case (Shot r c)
  with assms show ?thesis
    by (simp add: step_def handleShot_def)
next
  case (WsEvent ws' e)
  with assms(4) have ws': "ws' = ws"
    by (simp add: same_session_def)
  show ?thesis
  proof (cases e)
    case EvOpen
    with WsEvent ws' assms show ?thesis by (simp add: step_def dispatch_def)
  next
    case (EvMessage f)
    with WsEvent ws' assms show ?thesis by (simp add: step_def dispatch_def)
  next
    case EvClose
    with WsEvent ws' assms show ?thesis
      by (simp add: step_def dispatch_def ready_state_def)
  next
    case EvError
    with WsEvent ws' assms show ?thesis by (simp add: step_def dispatch_def)
  qed
next
  case StartMission
  with assms(4) show ?thesis by (simp add: same_session_def)
next
  case (FetchDone res)
  with assms(4) show ?thesis by (simp add: same_session_def)
qed

lemma after_win_run:
  assumes "list_all (same_session ws) evs"
    and "socketRef st = None" 
    and "ready_state st ws \<noteq> OPEN" and "ready_state st ws \<noteq> CONNECTING"
  shows "list_all (\<lambda>out. effects_of out = [] \<and> fault_of out = None
      \<and> winner (state_of out) = winner st \<and> status (state_of out) = status st
      \<and> socketRef (state_of out) = None
      \<and> myBoard (state_of out) = myBoard st \<and> enemyBoard (state_of out) = enemyBoard st)
    (run st evs)"
  using assms
proof (induction evs arbitrary: st)
  case Nil
  then show ?case by simp
next
  case (Cons ev evs)
  from Cons.prems have ev: "same_session ws ev" and evs: "list_all (same_session ws) evs"
    by simp_all
  from after_win_step [OF Cons.prems(2,3,4) ev]
  obtain st' where s: "step st ev = Completed [] st'" and r: "socketRef st' = None"
    and o: "ready_state st' ws \<noteq> OPEN" and c: "ready_state st' ws \<noteq> CONNECTING"
    and k: "winner st' = winner st" "status st' = status st"
       "myBoard st' = myBoard st" "enemyBoard st' = enemyBoard st"
    by blast
  from Cons.IH [OF evs r o c] k
  have "list_all (\<lambda>out. effects_of out = [] \<and> fault_of out = None
      \<and> winner (state_of out) = winner st \<and> status (state_of out) = status st
      \<and> socketRef (state_of out) = None
      \<and> myBoard (state_of out) = myBoard st \<and> enemyBoard (state_of out) = enemyBoard st)
    (run st' evs)"
    by simp
  with s r k show ?case
    by (simp add: Let_def state_of_def effects_of_def fault_of_def)
qed

section \<open>The claims\<close>

subsection \<open>Frames that do not decode\<close>

text \<open>
  Claim C1 says that a frame whose text is not JSON is handled without a throw. In the
  session that is playing, such a frame makes the handler throw a SyntaxError that
  nothing catches.
\<close>

theorem onmessage_malformed_counterexample:
  "map fault_of (run initial [StartMission, FetchDone (Created ''abc123''), WsEvent 0 EvOpen,
      WsEvent 0 (EvMessage Malformed)]) = [None, None, None, Some SyntaxError]"
  by (simp add: handler_defs)

text \<open>
  Claim C1, amended: a frame whose text fails to parse makes the handler throw, a
  SyntaxError from \<open>JSON.parse\<close> (and a TypeError when the text is the JSON value
  \<open>null\<close>), before anything is logged or updated, so the session state is as it was. A
  frame that parses to a value whose discriminating fields match none of the shapes
  init, success and error is ignored: the handler completes without throwing, logs
  nothing, and leaves the session state as it was.
\<close>

theorem onmessage_undecodable:
  "onmessage ws st Malformed = Uncaught SyntaxError [] st
   \<and> onmessage ws st (Text JNull) = Uncaught TypeError [] st
   \<and> onmessage ws st (Text JNonObject) = Completed [] st
   \<and> (msg_type data \<noteq> Some ''init'' \<and> msg_status data \<noteq> Some ''success''
        \<and> msg_status data \<noteq> Some ''error''
      \<longrightarrow> onmessage ws st (Text (JObject data)) = Completed [] st)"
  by (simp add: onmessage_def JSON_parse_def)

theorem onmessage_undecodable_witness:
  "msg_type \<lparr>msg_type = Some ''ping'', msg_status = Some ''ok'', msg_board = None,
             msg_turn_update = None, msg_message = None\<rparr> \<noteq> Some ''init''
   \<and> msg_status \<lparr>msg_type = Some ''ping'', msg_status = Some ''ok'', msg_board = None,
             msg_turn_update = None, msg_message = None\<rparr> \<noteq> Some ''success''
   \<and> msg_status \<lparr>msg_type = Some ''ping'', msg_status = Some ''ok'', msg_board = None,
             msg_turn_update = None, msg_message = None\<rparr> \<noteq> Some ''error''
   \<and> onmessage 0 playing (Text (JObject \<lparr>msg_type = Some ''ping'', msg_status = Some ''ok'',
        msg_board = None, msg_turn_update = None, msg_message = None\<rparr>)) = Completed [] playing
   \<and> onmessage 0 playing Malformed = Uncaught SyntaxError [] playing"
  using onmessage_undecodable [of 0 playing "\<lparr>msg_type = Some ''ping'', msg_status = Some ''ok'',
        msg_board = None, msg_turn_update = None, msg_message = None\<rparr>"]
  by simp

subsection \<open>Shots and the connection\<close>

text \<open>
  Claim C2 ties the transmission to the status. The guard of \<open>handleShot\<close> tests the
  reference to the socket instead. While the status is \<open>Connecting\<close> and the socket
  exists, a shot at an empty cell is no no-op: it reaches \<open>send\<close>, which throws on a
  socket that is connecting. And with status \<open>BattleActive\<close>, no winner and an empty
  cell, nothing is transmitted once the socket has closed.
\<close>

theorem handleShot_guard_counterexample:
  "map (status \<circ> state_of) (run initial [StartMission, FetchDone (Created ''abc123''), Shot 0 0])
     = [Connecting, Connecting, Connecting]
   \<and> map fault_of (run initial [StartMission, FetchDone (Created ''abc123''), Shot 0 0])
     = [None, None, Some InvalidStateError]
   \<and> map (status \<circ> state_of) (run initial [StartMission, FetchDone (Created ''abc123''),
        WsEvent 0 EvOpen, WsEvent 0 EvClose, Shot 0 0])
     = [Connecting, Connecting, BattleActive, BattleActive, BattleActive]
   \<and> map effects_of (run initial [StartMission, FetchDone (Created ''abc123''),
        WsEvent 0 EvOpen, WsEvent 0 EvClose, Shot 0 0])
     = [[Fetch Easy], [Connect 0 ''/ws/abc123''], [], [], []]"
  by (simp add: handler_defs handleShot_def truthy_def row_at_def js_get_def ws_send_def
      createEmptyBoard_def GRID_SIZE_def Let_def)

text \<open>
  Claim C2, amended: for (row, col) in the grid of a 10 by 10 \<open>enemyBoard\<close>,
  \<open>handleShot\<close> transmits \<open>row,col\<close> if and only if the reference holds a socket and
  that socket is open, no winner is set, and the cell is \<open>Empty\<close>; nothing else is ever
  transmitted. When the socket of the reference is still connecting, no winner is set
  and the cell is \<open>Empty\<close>, \<open>send\<close> throws an InvalidStateError; in every other case no
  exception is raised. In no case does the state, and so either board, change.
\<close>

theorem handleShot_transmits_iff:
  assumes "wf_board (enemyBoard st)" and "in_grid row col"
  shows "(effects_of (handleShot st row col) = [Sent ws (show_int row @ '','' @ show_int col)]
          \<longleftrightarrow> socketRef st = Some ws \<and> ready_state st ws = OPEN \<and> \<not> truthy (winner st)
              \<and> cell_at (enemyBoard st) row col = Some Empty)
    \<and> (effects_of (handleShot st row col) = []
          \<longleftrightarrow> \<not> (\<exists>s. socketRef st = Some s \<and> ready_state st s = OPEN \<and> \<not> truthy (winner st)
              \<and> cell_at (enemyBoard st) row col = Some Empty))
    \<and> (fault_of (handleShot st row col) =
         (if (\<exists>s. socketRef st = Some s \<and> ready_state st s = CONNECTING) \<and> \<not> truthy (winner st)
              \<and> cell_at (enemyBoard st) row col = Some Empty
          then Some InvalidStateError else None))
    \<and> state_of (handleShot st row col) = st"
  by (cases "socketRef st"; cases "ready_state st (the (socketRef st))")
    (auto simp add: handleShot_in_grid [OF assms] ws_send_def effects_of_def fault_of_def
      state_of_def)

theorem handleShot_transmits_iff_witness:
  "wf_board (enemyBoard playing) \<and> in_grid 3 4
   \<and> socketRef playing = Some 0 \<and> ready_state playing 0 = OPEN \<and> \<not> truthy (winner playing)
   \<and> cell_at (enemyBoard playing) 3 4 = Some Empty
   \<and> effects_of (handleShot playing 3 4) = [Sent 0 ''3,4'']
   \<and> state_of (handleShot playing 3 4) = playing"
proof -
  have w: "wf_board (enemyBoard playing)"
    by (simp add: playing_eq wf_createEmptyBoard)
  have g: "in_grid 3 4"
    by (simp add: in_grid_def GRID_SIZE_def)
  have c: "socketRef playing = Some 0 \<and> ready_state playing 0 = OPEN \<and> \<not> truthy (winner playing)
     \<and> cell_at (enemyBoard playing) 3 4 = Some Empty"
    by (simp add: playing_eq ready_state_def truthy_def cell_at_def row_at_def js_get_def
        createEmptyBoard_def GRID_SIZE_def)
  have p: "show_int 3 @ '','' @ show_int 4 = ''3,4''"
    by (simp add: show_int_def show_nat.simps)
  from handleShot_transmits_iff [OF w g, of 0] c p w g show ?thesis
    by simp
qed

subsection \<open>Turn outcomes\<close>

text \<open>
  Claim C3: every success frame with a turn outcome, delivered on the open socket of a
  session whose boards are 10 by 10 and with the coordinates of its shots in the grid,
  writes the result of the user's shot to \<open>enemyBoard\<close> at its coordinate and the result
  of the bot's shot to \<open>myBoard\<close> at its coordinate, every other cell staying as it was;
  a shot that is absent leaves its board as it was. This holds whether or not the
  outcome names a winner. When it names no winner, status and winner stay as they were,
  nothing is closed or sent, and the socket stays open.
\<close>

theorem turn_update_applied:
  assumes "ready_state st ws = OPEN"
    and "wf_board (enemyBoard st)" and "wf_board (myBoard st)"
    and "msg_status data = Some ''success''" and "msg_turn_update data = Some tu"
    and "\<not> (msg_type data = Some ''init'' \<and> msg_board data \<noteq> None)"
    and "shot_in_grid (tu_user tu)" and "shot_in_grid (tu_bot tu)"
  shows "\<exists>effs st'. step st (WsEvent ws (EvMessage (Text (JObject data)))) = Completed effs st'
    \<and> (case tu_user tu of
          None \<Rightarrow> enemyBoard st' = enemyBoard st
        | Some u \<Rightarrow> \<forall>r c. cell_at (enemyBoard st') r c =
            (if r = shot_row u \<and> c = shot_col u then Some (shot_result u)
             else cell_at (enemyBoard st) r c))
    \<and> (case tu_bot tu of
          None \<Rightarrow> myBoard st' = myBoard st
        | Some u \<Rightarrow> \<forall>r c. cell_at (myBoard st') r c =
            (if r = shot_row u \<and> c = shot_col u then Some (shot_result u)
             else cell_at (myBoard st) r c))
    \<and> (\<not> truthy (tu_winner tu) \<longrightarrow>
          effs = [] \<and> status st' = status st \<and> winner st' = winner st
          \<and> socketRef st' = socketRef st \<and> ready_state st' ws = OPEN)"
proof -
  let ?eb = "case tu_user tu of None \<Rightarrow> enemyBoard st
    | Some u \<Rightarrow> (enemyBoard st)[nat (shot_row u) := (enemyBoard st ! nat (shot_row u))[nat (shot_col u) := Some (shot_result u)]]"
  let ?mb = "case tu_bot tu of None \<Rightarrow> myBoard st
    | Some u \<Rightarrow> (myBoard st)[nat (shot_row u) := (myBoard st ! nat (shot_row u))[nat (shot_col u) := Some (shot_result u)]]"
  let ?out = "step st (WsEvent ws (EvMessage (Text (JObject data))))"
  have e: "apply_shot (enemyBoard st) (tu_user tu) = Inr ?eb"
    using assms(2,7) by (rule apply_shot_in_grid)
  have m: "apply_shot (myBoard st) (tu_bot tu) = Inr ?mb"
    using assms(3,8) by (rule apply_shot_in_grid)
  have route: "?out = turn_update ws st tu"
    using assms(1,4,5,6) by (simp add: step_message onmessage_success)
  show ?thesis
  proof (cases "truthy (tu_winner tu)")
    case True
    let ?st' = "st\<lparr>enemyBoard := ?eb, myBoard := ?mb, winner := tu_winner tu,
                   status := (if tu_winner tu = Some ''User'' then VICTORY else DEFEAT),
                   socketRef := None, sockets := ws_close ws (sockets st)\<rparr>"
    have "turn_update ws st tu = Completed [CloseCall ws] ?st'"
      using True by (simp add: turn_update_def e m)
    with route have s: "?out = Completed [CloseCall ws] ?st'"
      by simp
    have we: "case tu_user tu of
          None \<Rightarrow> enemyBoard ?st' = enemyBoard st
        | Some u \<Rightarrow> \<forall>r c. cell_at (enemyBoard ?st') r c =
            (if r = shot_row u \<and> c = shot_col u then Some (shot_result u)
             else cell_at (enemyBoard st) r c)"
      using written_cells [OF assms(2,7)] by (simp split: option.splits)
    have wm: "case tu_bot tu of
          None \<Rightarrow> myBoard ?st' = myBoard st
        | Some u \<Rightarrow> \<forall>r c. cell_at (myBoard ?st') r c =
            (if r = shot_row u \<and> c = shot_col u then Some (shot_result u)
             else cell_at (myBoard st) r c)"
      using written_cells [OF assms(3,8)] by (simp split: option.splits)
    from s we wm True show ?thesis
      by blast
  next
    case False
    let ?st' = "st\<lparr>enemyBoard := ?eb, myBoard := ?mb\<rparr>"
    have "turn_update ws st tu = Completed [] ?st'"
      using False by (simp add: turn_update_def e m)
    with route have s: "?out = Completed [] ?st'"
      by simp
    have we: "case tu_user tu of
          None \<Rightarrow> enemyBoard ?st' = enemyBoard st
        | Some u \<Rightarrow> \<forall>r c. cell_at (enemyBoard ?st') r c =
            (if r = shot_row u \<and> c = shot_col u then Some (shot_result u)
             else cell_at (enemyBoard st) r c)"
      using written_cells [OF assms(2,7)] by (simp split: option.splits)
    have wm: "case tu_bot tu of
          None \<Rightarrow> myBoard ?st' = myBoard st
        | Some u \<Rightarrow> \<forall>r c. cell_at (myBoard ?st') r c =
            (if r = shot_row u \<and> c = shot_col u then Some (shot_result u)
             else cell_at (myBoard st) r c)"
      using written_cells [OF assms(3,8)] by (simp split: option.splits)
    have "ready_state ?st' ws = ready_state st ws"
      by (simp add: ready_state_def)
    with assms(1) have rest: "status ?st' = status st \<and> winner ?st' = winner st
      \<and> socketRef ?st' = socketRef st \<and> ready_state ?st' ws = OPEN"
      by simp
    from s we wm rest show ?thesis
      by blast
  qed
qed

text \<open>
  The scenario of the specification: user (3,4) hit, bot (7,7) miss, no winner, in the
  session that is playing. And the frame that ends the game: its shot at (3,4) is
  written as well.
\<close>

theorem turn_update_applied_witness:
  "ready_state playing 0 = OPEN \<and> wf_board (enemyBoard playing) \<and> wf_board (myBoard playing)
   \<and> msg_status scenario = Some ''success''
   \<and> shot_in_grid (tu_user (the (msg_turn_update scenario)))
   \<and> shot_in_grid (tu_bot (the (msg_turn_update scenario)))
   \<and> \<not> truthy (tu_winner (the (msg_turn_update scenario)))
   \<and> cell_at (enemyBoard (state_of (step playing (WsEvent 0 (EvMessage (Text (JObject scenario))))))) 3 4 = Some Hit
   \<and> cell_at (myBoard (state_of (step playing (WsEvent 0 (EvMessage (Text (JObject scenario))))))) 7 7 = Some Miss
   \<and> status (state_of (step playing (WsEvent 0 (EvMessage (Text (JObject scenario)))))) = BattleActive
   \<and> effects_of (step playing (WsEvent 0 (EvMessage (Text (JObject scenario))))) = []
   \<and> truthy (tu_winner (the (msg_turn_update victory)))
   \<and> cell_at (enemyBoard (state_of (step playing (WsEvent 0 (EvMessage (Text (JObject victory))))))) 3 4 = Some Hit
   \<and> cell_at (enemyBoard (state_of (step playing (WsEvent 0 (EvMessage (Text (JObject victory))))))) 3 5 = Some Empty
   \<and> myBoard (state_of (step playing (WsEvent 0 (EvMessage (Text (JObject victory)))))) = myBoard playing"
proof -
  let ?tu = "\<lparr>tu_user = Some \<lparr>shot_row = 3, shot_col = 4, shot_result = Hit\<rparr>,
       tu_bot = Some \<lparr>shot_row = 7, shot_col = 7, shot_result = Miss\<rparr>, tu_winner = None\<rparr>"
  let ?tv = "\<lparr>tu_user = Some \<lparr>shot_row = 3, shot_col = 4, shot_result = Hit\<rparr>,
       tu_bot = None, tu_winner = Some ''User''\<rparr>"
  have h1: "ready_state playing 0 = OPEN" by (rule ready_playing)
  have h2: "wf_board (enemyBoard playing)" "wf_board (myBoard playing)"
    by (simp_all add: playing_eq wf_createEmptyBoard)
  have h3: "msg_status scenario = Some ''success''" "msg_turn_update scenario = Some ?tu"
    "\<not> (msg_type scenario = Some ''init'' \<and> msg_board scenario \<noteq> None)"
    by (simp_all add: scenario_def)
  have h4: "shot_in_grid (tu_user ?tu)" "shot_in_grid (tu_bot ?tu)"
    by (simp_all add: shot_in_grid_def in_grid_def GRID_SIZE_def)
  have h5: "\<not> truthy (tu_winner ?tu)"
    by (simp add: truthy_def)
  have v3: "msg_status victory = Some ''success''" "msg_turn_update victory = Some ?tv"
    "\<not> (msg_type victory = Some ''init'' \<and> msg_board victory \<noteq> None)"
    by (simp_all add: victory_def)
  have v4: "shot_in_grid (tu_user ?tv)" "shot_in_grid (tu_bot ?tv)"
    by (simp_all add: shot_in_grid_def in_grid_def GRID_SIZE_def)
  have v5: "truthy (tu_winner ?tv)"
    by (simp add: truthy_def)
  have e35: "cell_at (enemyBoard playing) 3 5 = Some Empty"
    by (simp add: playing_eq cell_at_def row_at_def js_get_def createEmptyBoard_def GRID_SIZE_def)
  from turn_update_applied [OF h1 h2 h3 h4] h5
  obtain st' where s: "step playing (WsEvent 0 (EvMessage (Text (JObject scenario)))) = Completed [] st'"
    and e: "cell_at (enemyBoard st') 3 4 = Some Hit"
    and m: "cell_at (myBoard st') 7 7 = Some Miss"
    and t: "status st' = status playing"
    by auto
  from s have a: "state_of (step playing (WsEvent 0 (EvMessage (Text (JObject scenario))))) = st'"
    "effects_of (step playing (WsEvent 0 (EvMessage (Text (JObject scenario))))) = []"
    by (simp_all add: state_of_def effects_of_def)
  from turn_update_applied [OF h1 h2 v3 v4]
  obtain effs st'' where s': "step playing (WsEvent 0 (EvMessage (Text (JObject victory)))) = Completed effs st''"
    and u: "case tu_user ?tv of
          None \<Rightarrow> enemyBoard st'' = enemyBoard playing
        | Some u \<Rightarrow> \<forall>r c. cell_at (enemyBoard st'') r c =
            (if r = shot_row u \<and> c = shot_col u then Some (shot_result u)
             else cell_at (enemyBoard playing) r c)"
    and b: "case tu_bot ?tv of
          None \<Rightarrow> myBoard st'' = myBoard playing
        | Some u \<Rightarrow> \<forall>r c. cell_at (myBoard st'') r c =
            (if r = shot_row u \<and> c = shot_col u then Some (shot_result u)
             else cell_at (myBoard playing) r c)"
    by blast
  from u have e': "\<forall>r c. cell_at (enemyBoard st'') r c =
        (if r = 3 \<and> c = 4 then Some Hit else cell_at (enemyBoard playing) r c)"
    by simp
  from b have m': "myBoard st'' = myBoard playing"
    by simp
  from s' have a': "state_of (step playing (WsEvent 0 (EvMessage (Text (JObject victory))))) = st''"
    by (simp add: state_of_def)
  from e' e35 have c': "cell_at (enemyBoard st'') 3 4 = Some Hit" "cell_at (enemyBoard st'') 3 5 = Some Empty"
    by simp_all
  have p: "status playing = BattleActive"
    by (simp add: playing_eq)
  from a e m t p a' c' m' h1 h2 h3 h4 h5 v5 show ?thesis
    by (simp add: scenario_def victory_def)
qed

subsection \<open>The winner ends the session\<close>

text \<open>
  Claim C4: when a turn outcome with a winner arrives on the open socket of a session
  (boards 10 by 10, shots in the grid), the winner is set to that tag, the status becomes
  \<open>VICTORY\<close> for \<open>User\<close> and \<open>DEFEAT\<close> otherwise, \<open>close\<close> is called once on the socket
  and the reference is cleared. Through every later run of events of that session,
  shots and events of that socket, nothing is sent or closed, nothing throws, and winner
  and status stay as set: the winner is set once, the connection is closed once, and
  every later shot is a no-op.
\<close>

theorem winner_ends_session:
  assumes "ready_state st ws = OPEN"
    and "wf_board (enemyBoard st)" and "wf_board (myBoard st)"
    and "msg_status data = Some ''success''" and "msg_turn_update data = Some tu"
    and "\<not> (msg_type data = Some ''init'' \<and> msg_board data \<noteq> None)"
    and "shot_in_grid (tu_user tu)" and "shot_in_grid (tu_bot tu)"
    and "tu_winner tu = Some w" and "w \<noteq> []"
    and "list_all (same_session ws) evs"
  shows "\<exists>st1. step st (WsEvent ws (EvMessage (Text (JObject data)))) = Completed [CloseCall ws] st1
    \<and> winner st1 = Some w
    \<and> status st1 = (if w = ''User'' then VICTORY else DEFEAT)
    \<and> socketRef st1 = None \<and> ready_state st1 ws = CLOSING
    \<and> list_all (\<lambda>out. effects_of out = [] \<and> fault_of out = None
          \<and> winner (state_of out) = Some w \<and> status (state_of out) = status st1
          \<and> socketRef (state_of out) = None)
        (run st1 evs)"
proof -
  let ?eb = "case tu_user tu of None \<Rightarrow> enemyBoard st
    | Some u \<Rightarrow> (enemyBoard st)[nat (shot_row u) := (enemyBoard st ! nat (shot_row u))[nat (shot_col u) := Some (shot_result u)]]"
  let ?mb = "case tu_bot tu of None \<Rightarrow> myBoard st
    | Some u \<Rightarrow> (myBoard st)[nat (shot_row u) := (myBoard st ! nat (shot_row u))[nat (shot_col u) := Some (shot_result u)]]"
  let ?st1 = "st\<lparr>enemyBoard := ?eb, myBoard := ?mb, winner := Some w,
                 status := (if w = ''User'' then VICTORY else DEFEAT),
                 socketRef := None, sockets := ws_close ws (sockets st)\<rparr>"
  have e: "apply_shot (enemyBoard st) (tu_user tu) = Inr ?eb"
    using assms(2,7) by (rule apply_shot_in_grid)
  have m: "apply_shot (myBoard st) (tu_bot tu) = Inr ?mb"
    using assms(3,8) by (rule apply_shot_in_grid)
  have t: "truthy (tu_winner tu)"
    using assms(9,10) by (simp add: truthy_def)
  have "turn_update ws st tu = Completed [CloseCall ws] ?st1"
    using t assms(9) by (simp add: turn_update_def e m)
  then have s: "step st (WsEvent ws (EvMessage (Text (JObject data)))) = Completed [CloseCall ws] ?st1"
    using assms(1,4,5,6) by (simp add: step_message onmessage_success)
  have "ready_state ?st1 ws = ready_state (st\<lparr>sockets := ws_close ws (sockets st)\<rparr>) ws"
    by (simp add: ready_state_def)
  with assms(1) have c: "ready_state ?st1 ws = CLOSING"
    by (simp add: ws_close_open)
  have r: "socketRef ?st1 = None"
    by simp
  from c have o: "ready_state ?st1 ws \<noteq> OPEN" "ready_state ?st1 ws \<noteq> CONNECTING"
    by simp_all
  have "list_all (\<lambda>out. effects_of out = [] \<and> fault_of out = None
          \<and> winner (state_of out) = winner ?st1 \<and> status (state_of out) = status ?st1
          \<and> socketRef (state_of out) = None
          \<and> myBoard (state_of out) = myBoard ?st1 \<and> enemyBoard (state_of out) = enemyBoard ?st1)
        (run ?st1 evs)"
    using assms(11) r o by (rule after_win_run)
  then have l: "list_all (\<lambda>out. effects_of out = [] \<and> fault_of out = None
          \<and> winner (state_of out) = Some w \<and> status (state_of out) = status ?st1
          \<and> socketRef (state_of out) = None)
        (run ?st1 evs)"
    by (rule list.pred_mono_strong) simp
  have "winner ?st1 = Some w \<and> status ?st1 = (if w = ''User'' then VICTORY else DEFEAT)"
    by simp
  with s r c l show ?thesis
    by blast
qed

theorem winner_ends_session_witness:
  "ready_state playing 0 = OPEN \<and> wf_board (enemyBoard playing) \<and> wf_board (myBoard playing)
   \<and> msg_status victory = Some ''success''
   \<and> tu_winner (the (msg_turn_update victory)) = Some ''User''
   \<and> list_all (same_session 0)
        [Shot 0 0, WsEvent 0 (EvMessage (Text (JObject victory))), WsEvent 0 EvClose, Shot 5 5]
   \<and> effects_of (step playing (WsEvent 0 (EvMessage (Text (JObject victory))))) = [CloseCall 0]
   \<and> status (state_of (step playing (WsEvent 0 (EvMessage (Text (JObject victory)))))) = VICTORY
   \<and> winner (state_of (step playing (WsEvent 0 (EvMessage (Text (JObject victory)))))) = Some ''User''
   \<and> list_all (\<lambda>out. effects_of out = [] \<and> fault_of out = None
          \<and> winner (state_of out) = Some ''User'' \<and> status (state_of out) = VICTORY)
        (run (state_of (step playing (WsEvent 0 (EvMessage (Text (JObject victory))))))
          [Shot 0 0, WsEvent 0 (EvMessage (Text (JObject victory))), WsEvent 0 EvClose, Shot 5 5])"
proof -
  let ?tu = "\<lparr>tu_user = Some \<lparr>shot_row = 3, shot_col = 4, shot_result = Hit\<rparr>,
       tu_bot = None, tu_winner = Some ''User''\<rparr>"
  let ?evs = "[Shot 0 0, WsEvent 0 (EvMessage (Text (JObject victory))), WsEvent 0 EvClose, Shot 5 5]"
  have h1: "ready_state playing 0 = OPEN" by (rule ready_playing)
  have h2: "wf_board (enemyBoard playing)" "wf_board (myBoard playing)"
    by (simp_all add: playing_eq wf_createEmptyBoard)
  have h3: "msg_status victory = Some ''success''" "msg_turn_update victory = Some ?tu"
    "\<not> (msg_type victory = Some ''init'' \<and> msg_board victory \<noteq> None)"
    by (simp_all add: victory_def)
  have h4: "shot_in_grid (tu_user ?tu)" "shot_in_grid (tu_bot ?tu)"
    by (simp_all add: shot_in_grid_def in_grid_def GRID_SIZE_def)
  have h5: "tu_winner ?tu = Some ''User''" "''User'' \<noteq> []"
    by simp_all
  have h6: "list_all (same_session 0) ?evs"
    by (simp add: same_session_def)
  from winner_ends_session [OF h1 h2 h3 h4 h5 h6]
  obtain st1 where s: "step playing (WsEvent 0 (EvMessage (Text (JObject victory)))) = Completed [CloseCall 0] st1"
    and w: "winner st1 = Some ''User''" and t: "status st1 = VICTORY"
    and l: "list_all (\<lambda>out. effects_of out = [] \<and> fault_of out = None
          \<and> winner (state_of out) = Some ''User'' \<and> status (state_of out) = status st1
          \<and> socketRef (state_of out) = None) (run st1 ?evs)"
    by auto
  from l t have l': "list_all (\<lambda>out. effects_of out = [] \<and> fault_of out = None
          \<and> winner (state_of out) = Some ''User'' \<and> status (state_of out) = VICTORY) (run st1 ?evs)"
    by (simp add: list_all_iff)
  from s have "state_of (step playing (WsEvent 0 (EvMessage (Text (JObject victory))))) = st1"
    "effects_of (step playing (WsEvent 0 (EvMessage (Text (JObject victory))))) = [CloseCall 0]"
    by (simp_all add: state_of_def effects_of_def)
  with w t l' h1 h2 h3 h6 show ?thesis
    by (simp add: victory_def)
qed

subsection \<open>Loss of the connection\<close>

text \<open>
  Claim C5 says that the status becomes \<open>Error\<close> when the connection closes with no
  winner. After the socket of the playing session has closed, the status is still
  \<open>BattleActive\<close>.
\<close>

theorem connection_loss_counterexample:
  "map (status \<circ> state_of) (run initial [StartMission, FetchDone (Created ''abc123''),
      WsEvent 0 EvOpen, WsEvent 0 EvClose]) = [Connecting, Connecting, BattleActive, BattleActive]
   \<and> map (winner \<circ> state_of) (run initial [StartMission, FetchDone (Created ''abc123''),
      WsEvent 0 EvOpen, WsEvent 0 EvClose]) = [None, None, None, None]"
  by (simp add: handler_defs)

text \<open>
  Claim C5, amended: when the connection fails or closes, no handler runs. Status,
  winner, both boards and the reference to the socket stay as they were, nothing is
  logged, and no new connection is opened: there is no retry.
\<close>

theorem connection_loss_unhandled:
  assumes "ev = EvClose \<or> ev = EvError"
  shows "effects_of (step st (WsEvent ws ev)) = []
    \<and> fault_of (step st (WsEvent ws ev)) = None
    \<and> status (state_of (step st (WsEvent ws ev))) = status st
    \<and> winner (state_of (step st (WsEvent ws ev))) = winner st
    \<and> myBoard (state_of (step st (WsEvent ws ev))) = myBoard st
    \<and> enemyBoard (state_of (step st (WsEvent ws ev))) = enemyBoard st
    \<and> socketRef (state_of (step st (WsEvent ws ev))) = socketRef st
    \<and> length (sockets (state_of (step st (WsEvent ws ev)))) = length (sockets st)"
  using assms by (auto simp add: step_def dispatch_def effects_of_def fault_of_def state_of_def)

theorem connection_loss_unhandled_witness:
  "effects_of (step playing (WsEvent 0 EvClose)) = []
    \<and> fault_of (step playing (WsEvent 0 EvClose)) = None
    \<and> status (state_of (step playing (WsEvent 0 EvClose))) = BattleActive
    \<and> winner (state_of (step playing (WsEvent 0 EvClose))) = None
    \<and> socketRef (state_of (step playing (WsEvent 0 EvClose))) = Some 0
    \<and> length (sockets (state_of (step playing (WsEvent 0 EvClose)))) = 1"
  using connection_loss_unhandled [of EvClose playing 0]
  by (simp add: playing_eq)

subsection \<open>Copy on write\<close>

text \<open>
  Claim C6: for a 10 by 10 board held in the store and (row, col) in the grid,
  \<open>updateGrid\<close> returns a new board object whose cell (row, col) is the result and whose
  every other cell is the cell of the input. Every object that was in the store before,
  so the input board and each of its rows, is as it was; the new board is another object
  than the input and shares no array with it. The board it denotes is the one the
  updater on values computes.
\<close>

theorem updateGrid_copy_on_write:
  assumes "heap_board h prev b" and "wf_board b" and "in_grid row col"
  shows "\<exists>h' newBoard b'. updateGrid_heap h prev row col result = Inr (h', newBoard)
     \<and> updateGrid b row col result = Inr b'
     \<and> heap_board h' newBoard b'
     \<and> (\<forall>r c. cell_at b' r c = (if r = row \<and> c = col then Some result else cell_at b r c))
     \<and> heap_board h' prev b
     \<and> (\<forall>a. a < length h \<longrightarrow> lookup h' a = lookup h a)
     \<and> newBoard \<noteq> prev
     \<and> set (board_addrs h' newBoard) \<inter> set (board_addrs h prev) = {}"
proof -
  from assms(1) obtain rs where prev: "lookup h prev = Some (Rows rs)"
    and rows: "list_all2 (\<lambda>r cells. lookup h r = Some (Cells cells)) rs b"
    by (rule heap_boardE)
  from assms(3) have rc: "0 \<le> row" "0 \<le> col" "nat row < GRID_SIZE" "nat col < GRID_SIZE"
    by (simp_all add: in_grid_nat)
  have len: "length b = GRID_SIZE" "length (b ! nat row) = GRID_SIZE"
    using assms(2) rc by (simp_all add: wf_board_length wf_board_rows)
  let ?n = "length h"
  let ?rs' = "[?n ..< ?n + length b]"
  let ?h2 = "h @ map Cells b @ [Rows ?rs']"
  let ?nb = "?n + length b"
  let ?a = "?n + nat row"
  let ?h' = "?h2[?a := Cells ((b ! nat row)[nat col := Some result])]"
  let ?b' = "b[nat row := (b ! nat row)[nat col := Some result]]"
  have copy: "copy_rows h rs = Inr (h @ map Cells b, ?rs')"
    using rows by (rule copy_rows_eq)
  have addr: "addr_at ?rs' row = Some ?a"
    using rc len by (simp add: addr_at_def)
  have cellsa: "lookup ?h2 ?a = Some (Cells (b ! nat row))"
    using rc len by (simp add: lookup_def nth_append)
  have set: "js_set (b ! nat row) col result = (b ! nat row)[nat col := Some result]"
    using rc len by (simp add: js_set_def)
  have run: "updateGrid_heap h prev row col result = Inr (?h', ?nb)"
    by (simp add: updateGrid_heap_def prev copy alloc_def addr cellsa set)
  have pure: "updateGrid b row col result = Inr ?b'"
    using assms(2,3) by (rule updateGrid_in_grid)
  have old: "\<forall>a. a < ?n \<longrightarrow> lookup ?h' a = lookup h a"
    by (simp add: lookup_def nth_append)
  have new: "heap_board ?h' ?nb ?b'"
    using rc len
    by (auto simp add: heap_board_def lookup_def nth_append list_all2_conv_all_nth nth_list_update)
  have prevlt: "prev < ?n"
    using prev by (rule lookup_valid)
  have rslt: "\<forall>r \<in> set rs. r < ?n"
  proof
    fix r assume "r \<in> set rs"
    then obtain i where i: "i < length rs" "rs ! i = r"
      by (auto simp add: in_set_conv_nth)
    with rows have "lookup h r = Some (Cells (b ! i))"
      by (auto simp add: list_all2_conv_all_nth)
    then show "r < ?n" by (rule lookup_valid)
  qed
  have keep: "heap_board ?h' prev b"
  proof -
    have "lookup ?h' prev = Some (Rows rs)"
      using prev prevlt old by simp
    moreover have "list_all2 (\<lambda>r cells. lookup ?h' r = Some (Cells cells)) rs b"
      using rows rslt old
      by (auto simp add: list_all2_conv_all_nth)
    ultimately show ?thesis
      by (simp add: heap_board_def)
  qed
  have nbaddrs: "board_addrs ?h' ?nb = ?nb # ?rs'"
    using rc len by (simp add: board_addrs_def lookup_def nth_append)
  have paddrs: "board_addrs h prev = prev # rs"
    using prev by (simp add: board_addrs_def)
  have disj: "set (board_addrs ?h' ?nb) \<inter> set (board_addrs h prev) = {}"
    using prevlt rslt by (auto simp add: nbaddrs paddrs)
  have cells: "\<forall>r c. cell_at ?b' r c = (if r = row \<and> c = col then Some result else cell_at b r c)"
    using assms(2,3) by (simp add: cell_at_update)
  have ne: "?nb \<noteq> prev"
    using prevlt by simp
  from run pure new cells keep old ne disj show ?thesis
    by blast
qed

theorem updateGrid_copy_on_write_witness:
  "heap_board (map Cells createEmptyBoard @ [Rows [0 ..< length createEmptyBoard]])
      (length createEmptyBoard) createEmptyBoard
   \<and> wf_board createEmptyBoard \<and> in_grid 3 4
   \<and> (\<exists>h' newBoard b'.
        updateGrid_heap (map Cells createEmptyBoard @ [Rows [0 ..< length createEmptyBoard]])
          (length createEmptyBoard) 3 4 Hit = Inr (h', newBoard)
        \<and> heap_board h' newBoard b' \<and> cell_at b' 3 4 = Some Hit
        \<and> cell_at b' 3 5 = Some Empty
        \<and> heap_board h' (length createEmptyBoard) createEmptyBoard
        \<and> newBoard \<noteq> length createEmptyBoard)"
proof -
  have g: "in_grid 3 4" by (simp add: in_grid_def GRID_SIZE_def)
  have e: "cell_at createEmptyBoard 3 5 = Some Empty"
    by (simp add: cell_at_def row_at_def js_get_def createEmptyBoard_def GRID_SIZE_def)
  from updateGrid_copy_on_write [OF heap_board_fresh wf_createEmptyBoard g, of Hit]
  obtain h' newBoard b' where
    "updateGrid_heap (map Cells createEmptyBoard @ [Rows [0 ..< length createEmptyBoard]])
          (length createEmptyBoard) 3 4 Hit = Inr (h', newBoard)"
    "heap_board h' newBoard b'"
    "\<forall>r c. cell_at b' r c = (if r = 3 \<and> c = 4 then Some Hit else cell_at createEmptyBoard r c)"
    "heap_board h' (length createEmptyBoard) createEmptyBoard"
    "newBoard \<noteq> length createEmptyBoard"
    by blast
  with e heap_board_fresh wf_createEmptyBoard g show ?thesis
    by auto
qed

subsection \<open>Starting a mission\<close>

text \<open>
  Claim C7: from any state, \<open>startBotGame\<close> closes the socket of the reference when
  there is one and then issues the creation request, in this order; the reference and
  the winner are cleared, both boards are 10 by 10 boards of \<open>Empty\<close>, the status is
  \<open>Connecting\<close>, and the socket that was referenced is neither connecting nor open. When
  the request fails (transport error, response that is not ok, body that is not JSON),
  the status becomes \<open>Error\<close>, and no socket is created or referenced.
\<close>

theorem startBotGame_resets:
  "\<exists>st1. startBotGame_begin st =
       Completed ((case socketRef st of None \<Rightarrow> [] | Some ws \<Rightarrow> [CloseCall ws])
                  @ [Fetch (difficulty st)]) st1
     \<and> socketRef st1 = None \<and> winner st1 = None
     \<and> myBoard st1 = replicate 10 (replicate 10 (Some Empty))
     \<and> enemyBoard st1 = replicate 10 (replicate 10 (Some Empty))
     \<and> status st1 = Connecting
     \<and> (case socketRef st of
          None \<Rightarrow> sockets st1 = sockets st
        | Some ws \<Rightarrow> ready_state st1 ws \<noteq> CONNECTING \<and> ready_state st1 ws \<noteq> OPEN)
     \<and> (\<forall>st2 res. res = TransportError \<or> res = NotOk \<or> res = BadBody \<longrightarrow>
          startBotGame_resume st2 res = Completed [ConsoleError] (st2\<lparr>status := Error\<rparr>)
          \<and> sockets (st2\<lparr>status := Error\<rparr>) = sockets st2
          \<and> socketRef (st2\<lparr>status := Error\<rparr>) = socketRef st2)"
  by (auto simp add: startBotGame_begin_def startBotGame_resume_def createEmptyBoard_def
      GRID_SIZE_def ready_state_def ws_close_def split: option.splits)

theorem startBotGame_resets_witness:
  "effects_of (startBotGame_begin playing) = [CloseCall 0, Fetch Easy]
   \<and> socketRef (state_of (startBotGame_begin playing)) = None
   \<and> winner (state_of (startBotGame_begin playing)) = None
   \<and> myBoard (state_of (startBotGame_begin playing)) = replicate 10 (replicate 10 (Some Empty))
   \<and> enemyBoard (state_of (startBotGame_begin playing)) = replicate 10 (replicate 10 (Some Empty))
   \<and> ready_state (state_of (startBotGame_begin playing)) 0 \<noteq> OPEN
   \<and> startBotGame_resume (state_of (startBotGame_begin playing)) NotOk =
       Completed [ConsoleError] ((state_of (startBotGame_begin playing))\<lparr>status := Error\<rparr>)"
proof -
  from startBotGame_resets [of playing]
  obtain st1 where s: "startBotGame_begin playing =
       Completed ((case socketRef playing of None \<Rightarrow> [] | Some ws \<Rightarrow> [CloseCall ws])
                  @ [Fetch (difficulty playing)]) st1"
    and a: "socketRef st1 = None" "winner st1 = None"
      "myBoard st1 = replicate 10 (replicate 10 (Some Empty))"
      "enemyBoard st1 = replicate 10 (replicate 10 (Some Empty))"
    and c: "case socketRef playing of
          None \<Rightarrow> sockets st1 = sockets playing
        | Some ws \<Rightarrow> ready_state st1 ws \<noteq> CONNECTING \<and> ready_state st1 ws \<noteq> OPEN"
    and f: "\<forall>st2 res. res = TransportError \<or> res = NotOk \<or> res = BadBody \<longrightarrow>
          startBotGame_resume st2 res = Completed [ConsoleError] (st2\<lparr>status := Error\<rparr>)"
    by blast
  from s have "state_of (startBotGame_begin playing) = st1"
    "effects_of (startBotGame_begin playing) = [CloseCall 0, Fetch Easy]"
    by (simp_all add: state_of_def effects_of_def playing_eq)
  moreover from c have "ready_state st1 0 \<noteq> OPEN"
    by (simp add: playing_eq)
  moreover from f have "startBotGame_resume st1 NotOk = Completed [ConsoleError] (st1\<lparr>status := Error\<rparr>)"
    by blast
  ultimately show ?thesis
    using a by simp
qed

subsection \<open>updateGrid and the grid\<close>

text \<open>
  Claim C8 says that the update is bounds-checked. It is not: a column beyond the row
  extends the copy of the row, so a cell outside the grid is written, and a row that does
  not exist makes the updater throw.
\<close>

theorem updateGrid_unchecked_counterexample:
  "updateGrid createEmptyBoard 3 10 Hit =
     Inr (createEmptyBoard[3 := replicate 10 (Some Empty) @ [Some Hit]])
   \<and> cell_at (createEmptyBoard[3 := replicate 10 (Some Empty) @ [Some Hit]]) 3 10 = Some Hit
   \<and> \<not> in_grid 3 10
   \<and> updateGrid createEmptyBoard 10 0 Hit = Inl TypeError"
  by (simp add: updateGrid_def row_at_def cell_at_def createEmptyBoard_def GRID_SIZE_def
      js_set_def js_get_def in_grid_def nth_append)

text \<open>
  Claim C8, amended: \<open>updateGrid\<close> makes no bounds check; for coordinates in
  \<open>[0,9] \<times> [0,9]\<close> on a 10 by 10 board it raises no fault, the result is again a
  10 by 10 board holding the result at the coordinate, and no cell outside the grid
  exists in it.
\<close>

theorem updateGrid_within_grid:
  assumes "wf_board b" and "in_grid row col"
  shows "\<exists>b'. updateGrid b row col result = Inr b' \<and> wf_board b'
            \<and> cell_at b' row col = Some result
            \<and> (\<forall>r c. \<not> in_grid r c \<longrightarrow> cell_at b' r c = None)"
proof -
  let ?b' = "b[nat row := (b ! nat row)[nat col := Some result]]"
  have "updateGrid b row col result = Inr ?b'"
    using assms by (rule updateGrid_in_grid)
  moreover have wf: "wf_board ?b'"
    using assms by (rule wf_board_update)
  moreover have "cell_at ?b' row col = Some result"
    using assms by (simp add: cell_at_update)
  moreover have "\<forall>r c. \<not> in_grid r c \<longrightarrow> cell_at ?b' r c = None"
    using wf by (simp add: cell_at_outside)
  ultimately show ?thesis by blast
qed

theorem updateGrid_within_grid_witness:
  "wf_board createEmptyBoard \<and> in_grid 3 4
   \<and> (\<exists>b'. updateGrid createEmptyBoard 3 4 Hit = Inr b' \<and> wf_board b'
            \<and> cell_at b' 3 4 = Some Hit
            \<and> (\<forall>r c. \<not> in_grid r c \<longrightarrow> cell_at b' r c = None))"
proof -
  have g: "in_grid 3 4" by (simp add: in_grid_def GRID_SIZE_def)
  show ?thesis
    using updateGrid_within_grid [OF wf_createEmptyBoard g, of Hit] wf_createEmptyBoard g
    by simp
qed

subsection \<open>Rejections\<close>

text \<open>
  Claim C9: a frame with status \<open>error\<close> (and not of the init shape), delivered on the
  open socket, only logs its message as a warning. The whole session state, status,
  winner, both boards and the sockets, is as before, so the connection stays open and
  any shot behaves as it would have before the frame.
\<close>

theorem rejection_is_notice:
  assumes "ready_state st ws = OPEN"
    and "msg_status data = Some ''error''"
    and "\<not> (msg_type data = Some ''init'' \<and> msg_board data \<noteq> None)"
  shows "step st (WsEvent ws (EvMessage (Text (JObject data)))) =
           Completed [ConsoleWarn (msg_message data)] st
    \<and> handleShot (state_of (step st (WsEvent ws (EvMessage (Text (JObject data)))))) row col =
        handleShot st row col"
proof -
  have "onmessage ws st (Text (JObject data)) = Completed [ConsoleWarn (msg_message data)] st"
    using assms(2,3) by (auto simp add: onmessage_def JSON_parse_def)
  with assms(1) show ?thesis
    by (simp add: step_message state_of_def)
qed

theorem rejection_is_notice_witness:
  "ready_state playing 0 = OPEN
   \<and> step playing (WsEvent 0 (EvMessage (Text (JObject
        \<lparr>msg_type = None, msg_status = Some ''error'', msg_board = None,
         msg_turn_update = None, msg_message = Some ''Cell already targeted''\<rparr>)))) =
       Completed [ConsoleWarn (Some ''Cell already targeted'')] playing"
  using rejection_is_notice [of playing 0 "\<lparr>msg_type = None, msg_status = Some ''error'',
     msg_board = None, msg_turn_update = None, msg_message = Some ''Cell already targeted''\<rparr>"]
    ready_playing
  by simp

subsection \<open>Discriminator without payload\<close>

text \<open>
  Claim C10: a frame with type \<open>init\<close> but no board (and no other shape), and a frame
  with status \<open>success\<close> but no turn outcome (and not of the init shape), are ignored:
  nothing is logged and the session state is as before.
\<close>

theorem missing_payload_ignored:
  assumes "(msg_type data = Some ''init'' \<and> msg_board data = None
            \<and> \<not> (msg_status data = Some ''success'' \<and> msg_turn_update data \<noteq> None)
            \<and> msg_status data \<noteq> Some ''error'')
         \<or> (msg_status data = Some ''success'' \<and> msg_turn_update data = None
            \<and> \<not> (msg_type data = Some ''init'' \<and> msg_board data \<noteq> None))"
  shows "onmessage ws st (Text (JObject data)) = Completed [] st"
  using assms by (auto simp add: onmessage_def JSON_parse_def)

theorem missing_payload_ignored_witness:
  "onmessage 0 playing (Text (JObject \<lparr>msg_type = Some ''init'', msg_status = None,
      msg_board = None, msg_turn_update = None, msg_message = None\<rparr>)) = Completed [] playing
   \<and> onmessage 0 playing (Text (JObject \<lparr>msg_type = None, msg_status = Some ''success'',
      msg_board = None, msg_turn_update = None, msg_message = None\<rparr>)) = Completed [] playing"
  using missing_payload_ignored [of "\<lparr>msg_type = Some ''init'', msg_status = None,
      msg_board = None, msg_turn_update = None, msg_message = None\<rparr>" 0 playing]
    missing_payload_ignored [of "\<lparr>msg_type = None, msg_status = Some ''success'',
      msg_board = None, msg_turn_update = None, msg_message = None\<rparr>" 0 playing]
  by simp

end
